theory Spec2Isabelle
  imports Main "HOL-Library.Word" "HOL-Library.Sublist"
begin

section \<open>Buffers\<close>

text \<open>
  A Node \<open>Buffer\<close> is a sequence of bytes. Three of its operations are used by the
  parser:
  \<^item> \<open>data[i]\<close> is the byte at \<open>i\<close>, or \<open>undefined\<close> when \<open>i\<close> is not an index of the
    buffer (it never throws);
  \<^item> \<open>data.readUInt16BE(offset)\<close> is \<open>first * 2 ** 8 + last\<close> of the two bytes at
    \<open>offset\<close>, and throws a \<open>RangeError\<close> when one of them is missing;
  \<^item> \<open>data.slice(start, end)\<close> clamps both positions to the length of the buffer.
  \<open>toString('utf8')\<close> belongs to the runtime; the parser takes it as the parameter
  \<open>utf8\<close>, so nothing is assumed about how bytes are decoded. A decoded name is only
  compared with the names of the block list, tested for emptiness and handed to
  \<open>net.connect\<close>.
\<close>

type_synonym buffer = "8 word list"

datatype error = RangeError

definition byteAt :: "buffer \<Rightarrow> nat \<Rightarrow> nat option" where
  "byteAt data i = (if i < length data then Some (unat (data ! i)) else None)"

definition readUInt16BE :: "buffer \<Rightarrow> nat \<Rightarrow> error + nat" where
  "readUInt16BE data offset =
     (case (byteAt data offset, byteAt data (offset + 1)) of
        (Some firstByte, Some lastByte) \<Rightarrow> Inr (firstByte * 2 ^ 8 + lastByte)
      | _ \<Rightarrow> Inl RangeError)"

definition slice :: "buffer \<Rightarrow> nat \<Rightarrow> nat \<Rightarrow> buffer" where
  "slice data start end = take (end - start) (drop start data)"

definition ascii :: "string \<Rightarrow> buffer" where
  "ascii s = map (\<lambda>c. of_nat (of_char c)) s"

section \<open>The ClientHello parser\<close>

text \<open>
  \<open>extLoop\<close> is the \<open>while\<close> loop of \<open>extractSNI\<close>, \<open>i\<close> and \<open>end\<close> being its two
  variables; \<open>i + 4\<close> below is \<open>i\<close> after \<open>i += 4\<close>. Each round moves \<open>i\<close> forward by at
  least four bytes inside the buffer. In the branch of the server name the two
  \<open>readUInt16BE\<close> have no bounds check of their own; \<open>sniType = data[i + 4]\<close> is read and
  not used, and that read cannot throw.
\<close>

function extLoop :: "(buffer \<Rightarrow> string) \<Rightarrow> buffer \<Rightarrow> nat \<Rightarrow> nat \<Rightarrow> error + string option" where
  "extLoop utf8 data end i =
     (if i + 4 \<le> end \<and> i + 4 \<le> length data then
        (case readUInt16BE data i of Inl e \<Rightarrow> Inl e | Inr extType \<Rightarrow>
        (case readUInt16BE data (i + 2) of Inl e \<Rightarrow> Inl e | Inr extLen \<Rightarrow>
           if extType = 0 \<and> (i + 4) + extLen \<le> length data then
             (case readUInt16BE data ((i + 4) + 2) of Inl e \<Rightarrow> Inl e | Inr sniListLen \<Rightarrow>
             (case readUInt16BE data ((i + 4) + 5) of Inl e \<Rightarrow> Inl e | Inr sniLen \<Rightarrow>
                Inr (Some (utf8 (slice data ((i + 4) + 7) ((i + 4) + 7 + sniLen))))))
           else extLoop utf8 data end ((i + 4) + extLen)))
      else Inr None)"
  by pat_completeness auto
termination
  by (relation "measure (\<lambda>(utf8, data, end, i). length data - i)") auto

declare extLoop.simps [simp del]

text \<open>
  \<open>extractSNI\<close>, statement by statement. The read of the compression-methods length,
  \<open>data[i]\<close>, has no bounds check before it: when \<open>i\<close> is past the end it yields
  \<open>undefined\<close>, \<open>i += 1 + undefined\<close> makes \<open>i\<close> \<open>NaN\<close>, the test \<open>i + 2 > data.length\<close>
  is false for \<open>NaN\<close>, and \<open>data.readUInt16BE(NaN)\<close> throws a \<open>RangeError\<close>. The session-id
  length is read after the test \<open>i >= data.length\<close>, so it is always a byte.
\<close>

definition extractSNI :: "(buffer \<Rightarrow> string) \<Rightarrow> buffer \<Rightarrow> error + string option" where
  "extractSNI utf8 data =
     (if byteAt data 0 \<noteq> Some 0x16 then Inr None
      else if 43 \<ge> length data then Inr None
      else
        (case byteAt data 43 of None \<Rightarrow> Inr None | Some sessionIDLength \<Rightarrow>
         let i1 = 43 + (1 + sessionIDLength) in
         if i1 + 2 > length data then Inr None
         else
           (case readUInt16BE data i1 of Inl e \<Rightarrow> Inl e | Inr cipherSuiteLength \<Rightarrow>
            let i2 = i1 + (2 + cipherSuiteLength) in
            (case byteAt data i2 of
               None \<Rightarrow> Inl RangeError
             | Some compressionMethodLength \<Rightarrow>
                 let i3 = i2 + (1 + compressionMethodLength) in
                 if i3 + 2 > length data then Inr None
                 else
                   (case readUInt16BE data i3 of Inl e \<Rightarrow> Inl e | Inr extensionsLength \<Rightarrow>
                    let i4 = i3 + 2; end = i4 + extensionsLength in
                    extLoop utf8 data end i4)))))"

section \<open>Strings of the runtime\<close>

text \<open>
  Request targets and header values reach the handlers as strings of characters below
  256, which is what \<open>string\<close> holds. \<open>split\<close> is \<open>String.prototype.split\<close> with a
  one-character separator; \<open>parseInt\<close> is the global \<open>parseInt\<close> with no radix: leading
  white space, an optional sign, an optional \<open>0x\<close>, then the longest run of digits, and
  \<open>NaN\<close> (here \<open>None\<close>) when that run is empty. The value is exact, where the runtime
  rounds integers of more than 53 bits.
\<close>

fun splitAcc :: "char \<Rightarrow> string \<Rightarrow> string \<Rightarrow> string list" where
  "splitAcc sep acc [] = [rev acc]"
| "splitAcc sep acc (c # cs) =
     (if c = sep then rev acc # splitAcc sep [] cs else splitAcc sep (c # acc) cs)"

definition split :: "char \<Rightarrow> string \<Rightarrow> string list" where
  "split sep s = splitAcc sep [] s"

definition isStrWhiteSpaceChar :: "char \<Rightarrow> bool" where
  "isStrWhiteSpaceChar c = ((of_char c :: nat) \<in> {9, 10, 11, 12, 13, 32, 160})"

definition digitValue :: "char \<Rightarrow> nat option" where
  "digitValue c =
     (let n = (of_char c :: nat) in
      if 48 \<le> n \<and> n \<le> 57 then Some (n - 48)
      else if 97 \<le> n \<and> n \<le> 102 then Some (n - 87)
      else if 65 \<le> n \<and> n \<le> 70 then Some (n - 55)
      else None)"

definition isRadixDigit :: "nat \<Rightarrow> char \<Rightarrow> bool" where
  "isRadixDigit R c = (case digitValue c of None \<Rightarrow> False | Some d \<Rightarrow> d < R)"

definition parseInt :: "string \<Rightarrow> int option" where
  "parseInt inputString =
     (let S = dropWhile isStrWhiteSpaceChar inputString;
          sign = (if take 1 S = ''-'' then - 1 else 1 :: int);
          S1 = (if take 1 S = ''+'' \<or> take 1 S = ''-'' then drop 1 S else S);
          stripPrefix = (take 2 S1 = ''0x'' \<or> take 2 S1 = ''0X'');
          R = (if stripPrefix then 16 else 10 :: nat);
          S2 = (if stripPrefix then drop 2 S1 else S1);
          Z = takeWhile (isRadixDigit R) S2
      in if Z = [] then None
         else Some (sign * int (foldl (\<lambda>a c. a * R + (case digitValue c of None \<Rightarrow> 0 | Some d \<Rightarrow> d)) 0 Z)))"

text \<open>\<open>a || b\<close> on a number that may be \<open>NaN\<close>: \<open>NaN\<close> and \<open>0\<close> are falsy.\<close>

definition numberOr :: "int option \<Rightarrow> int \<Rightarrow> int" where
  "numberOr a b = (case a of None \<Rightarrow> b | Some n \<Rightarrow> if n = 0 then b else n)"

text \<open>\<open>a || b\<close> on a string that may be \<open>undefined\<close> or \<open>null\<close>: these and \<open>""\<close> are falsy.\<close>

definition stringOr :: "string option \<Rightarrow> string \<Rightarrow> string" where
  "stringOr a b = (case a of None \<Rightarrow> b | Some s \<Rightarrow> if s = [] then b else s)"

section \<open>The traffic logger\<close>

text \<open>A log entry; its field \<open>method\<close> is \<open>httpMethod\<close> here.\<close>

datatype protocol = HTTP | HTTPS

record LogEntry =
  timestamp :: string
  httpMethod :: string
  hostname :: string
  path :: string
  protocol :: protocol
  userAgent :: "string option"

text \<open>
  The two fields of \<open>BrowserTrafficLogger\<close> that the handlers change. The \<open>Set\<close> of
  domains is a set of strings.
\<close>

record BrowserTrafficLogger =
  logEntries :: "LogEntry list"
  uniqueDomains :: "string set"

text \<open>
  A request as the handlers read it: \<open>req.method\<close>, \<open>req.url\<close> (absent or a string) and
  \<open>req.headers\<close>, an object whose keys are the lower-cased header names, in the order of
  arrival.
\<close>

record IncomingMessage =
  reqMethod :: string
  reqUrl :: "string option"
  reqHeaders :: "(string \<times> string) list"

text \<open>The four fields of the result of \<open>url.parse\<close> that the handler reads.\<close>

record Url =
  url_protocol :: "string option"
  url_hostname :: "string option"
  url_port :: "string option"
  url_path :: "string option"

record RequestOptions =
  optHostname :: string
  optPort :: int
  optPath :: string
  optMethod :: string
  optHeaders :: "(string \<times> string) list"

text \<open>
  What a handler does to the outside, in the order of the calls: a line appended to a
  file, the two calls on the response, \<open>http.request\<close>, \<open>net.connect\<close>, \<open>write\<close> and \<open>end\<close>
  on the client socket and on the upstream socket (\<open>serverSocket\<close> in the logger,
  \<open>remoteSocket\<close> in the blocking proxy), and an exception that leaves a callback. Output
  on the console is left out of the effects.
\<close>

datatype effect =
    AppendFile string string
  | WriteHead nat
  | ResEnd string
  | HttpRequest RequestOptions
  | NetConnect int string
  | ClientWrite buffer
  | ClientEnd
  | UpstreamWrite buffer
  | UpstreamEnd
  | Uncaught error

definition protocolName :: "protocol \<Rightarrow> string" where
  "protocolName p = (case p of HTTP \<Rightarrow> ''HTTP'' | HTTPS \<Rightarrow> ''HTTPS'')"

definition writeToLogFile :: "LogEntry \<Rightarrow> effect list" where
  "writeToLogFile entry =
     [AppendFile ''browser_traffic.log''
        (timestamp entry @ '' | '' @ protocolName (protocol entry) @ '' | '' @ httpMethod entry @
         '' | '' @ hostname entry @ path entry @ '' | '' @
         stringOr (userAgent entry) ''Unknown'' @ [CHR 0x0A])]"

definition logRequest :: "BrowserTrafficLogger \<Rightarrow> LogEntry \<Rightarrow> BrowserTrafficLogger \<times> effect list" where
  "logRequest this entry =
     (this\<lparr>logEntries := logEntries this @ [entry],
            uniqueDomains := insert (hostname entry) (uniqueDomains this)\<rparr>,
      writeToLogFile entry)"

subsection \<open>Plain requests\<close>

text \<open>
  The regular expression \<open>/^https?:\/\/([^/]+)(.*)/\<close> of the third strategy: the two
  groups, when the target starts with the scheme and at least one character other than
  \<open>/\<close> follows. The dot stops at a line terminator.
\<close>

definition urlMatch :: "string \<Rightarrow> (string \<times> string) option" where
  "urlMatch u =
     (let rest = (if take 8 u = ''https://'' then Some (drop 8 u)
                  else if take 7 u = ''http://'' then Some (drop 7 u)
                  else None)
      in case rest of
           None \<Rightarrow> None
         | Some r \<Rightarrow>
             let hostPort = takeWhile (\<lambda>c. c \<noteq> CHR ''/'') r;
                 urlPath = takeWhile (\<lambda>c. c \<noteq> CHR 0x0A \<and> c \<noteq> CHR 0x0D)
                             (dropWhile (\<lambda>c. c \<noteq> CHR ''/'') r)
             in if hostPort = [] then None else Some (hostPort, urlPath))"

definition startsWith :: "string option \<Rightarrow> string \<Rightarrow> bool" where
  "startsWith s p = (case s of None \<Rightarrow> False | Some u \<Rightarrow> take (length p) u = p)"

text \<open>
  A destructuring \<open>[hostPart, portPart]\<close> of a split takes the first two parts, the
  second being absent when there is no separator.
\<close>

definition hostPartOf :: "string list \<Rightarrow> string option" where
  "hostPartOf parts = (case parts of [] \<Rightarrow> None | h # _ \<Rightarrow> Some h)"

definition portPartOf :: "string list \<Rightarrow> string option" where
  "portPartOf parts = (case parts of _ # p # _ \<Rightarrow> Some p | _ \<Rightarrow> None)"

text \<open>
  The first part of \<open>handleHttpRequest\<close>: the three ways to find \<open>hostname\<close>, \<open>path\<close> and
  \<open>port\<close>, in the order of the source. \<open>url.parse\<close> belongs to the runtime and is the
  parameter \<open>urlParse\<close>; in the first branch \<open>req.url\<close> is a string.
\<close>

definition resolveDestination :: "(string \<Rightarrow> Url) \<Rightarrow> IncomingMessage \<Rightarrow> string \<times> string \<times> int" where
  "resolveDestination urlParse req =
     (if startsWith (reqUrl req) ''http://'' \<or> startsWith (reqUrl req) ''https://'' then
        (let parsed = urlParse (case reqUrl req of None \<Rightarrow> [] | Some u \<Rightarrow> u) in
         (stringOr (url_hostname parsed) [],
          stringOr (url_path parsed) ''/'',
          numberOr (parseInt (stringOr (url_port parsed) ''80''))
            (if url_protocol parsed = Some ''https:'' then 443 else 80)))
      else if stringOr (map_of (reqHeaders req) ''host'') [] \<noteq> [] then
        (let hostHeader = stringOr (map_of (reqHeaders req) ''host'') [];
             parts = split (CHR '':'') hostHeader
         in (stringOr (hostPartOf parts) [],
             stringOr (reqUrl req) ''/'',
             numberOr (parseInt (stringOr (portPartOf parts) ''80'')) 80))
      else
        (case (case reqUrl req of None \<Rightarrow> None | Some u \<Rightarrow> urlMatch u) of
           Some (hostPort, urlPath) \<Rightarrow>
             if hostPort \<noteq> [] then
               (let parts = split (CHR '':'') hostPort
                in (stringOr (hostPartOf parts) [],
                    stringOr (Some urlPath) ''/'',
                    numberOr (parseInt (stringOr (portPartOf parts) ''80'')) 80))
             else ([], stringOr (reqUrl req) ''/'', 80)
         | None \<Rightarrow> ([], stringOr (reqUrl req) ''/'', 80)))"

text \<open>
  \<open>handleHttpRequest\<close>: the validation of the hostname, then the log entry, then the
  outbound request with every header but \<open>proxy-connection\<close>. \<open>now\<close> is the value of
  \<open>new Date().toISOString()\<close>. The result is the logger after the call and the effects
  of the call; what the outbound request answers later is not part of it.
\<close>

definition handleHttpRequest ::
  "(string \<Rightarrow> Url) \<Rightarrow> string \<Rightarrow> BrowserTrafficLogger \<Rightarrow> IncomingMessage \<Rightarrow>
   BrowserTrafficLogger \<times> effect list" where
  "handleHttpRequest urlParse now this req =
     (case resolveDestination urlParse req of (host, pth, port) \<Rightarrow>
        if host = [] \<or> host = ''unknown'' \<or> host = [] then
          (this, [WriteHead 400, ResEnd ''Bad Request - Could not determine target hostname''])
        else
          (case logRequest this
                  \<lparr>timestamp = now, httpMethod = reqMethod req, hostname = host, path = pth,
                   protocol = HTTP, userAgent = map_of (reqHeaders req) ''user-agent''\<rparr> of
             (this', written) \<Rightarrow>
               (this',
                written @
                [HttpRequest
                   \<lparr>optHostname = host, optPort = port, optPath = pth,
                    optMethod = reqMethod req,
                    optHeaders = filter (\<lambda>(k, v). k \<noteq> ''proxy-connection'') (reqHeaders req)\<rparr>])))"

subsection \<open>CONNECT requests\<close>

definition parseConnectUrl :: "string \<Rightarrow> string \<times> string" where
  "parseConnectUrl connectUrl =
     (let parts = split (CHR '':'') connectUrl
      in (stringOr (hostPartOf parts) [], stringOr (portPartOf parts) ''443''))"

text \<open>
  \<open>handleHttpsConnect\<close> up to its return: it logs, then calls \<open>net.connect\<close> and leaves
  three callbacks behind. The source asserts that \<open>req.url\<close> is present (\<open>req.url!\<close>).
\<close>

definition handleHttpsConnect ::
  "string \<Rightarrow> BrowserTrafficLogger \<Rightarrow> IncomingMessage \<Rightarrow> BrowserTrafficLogger \<times> effect list" where
  "handleHttpsConnect now this req =
     (case parseConnectUrl (case reqUrl req of None \<Rightarrow> [] | Some u \<Rightarrow> u) of (host, port) \<Rightarrow>
        (case logRequest this
                \<lparr>timestamp = now, httpMethod = ''CONNECT'', hostname = host, path = ''/'',
                 protocol = HTTPS, userAgent = map_of (reqHeaders req) ''user-agent''\<rparr> of
           (this', written) \<Rightarrow>
             (this', written @ [NetConnect (numberOr (parseInt port) 443) host])))"

text \<open>
  After the return the connection lives through its callbacks. \<open>UpstreamConnect\<close> is the
  callback of \<open>net.connect\<close>; \<open>UpstreamError\<close> and \<open>ClientError\<close> are the two \<open>error\<close>
  handlers, which stay registered for the life of the sockets; \<open>ClientData\<close> and
  \<open>UpstreamData\<close> are chunks arriving on the two sockets, which the two \<open>pipe\<close> calls
  copy to the other socket once the callback has run. A failed socket is destroyed and
  its pipes end with it. The callback is still due after an error of the client alone.
  None of the callbacks touches the logger.
\<close>

datatype socketEvent =
    UpstreamConnect
  | UpstreamError
  | ClientError
  | ClientData buffer
  | UpstreamData buffer

datatype connectState = Pending | Established | Ended

definition connectionEstablished :: buffer where
  "connectionEstablished =
     ascii (''HTTP/1.1 200 Connection Established'' @ [CHR 0x0D, CHR 0x0A, CHR 0x0D, CHR 0x0A])"

fun connectStep ::
  "buffer \<Rightarrow> BrowserTrafficLogger \<times> connectState \<Rightarrow> socketEvent \<Rightarrow>
   (BrowserTrafficLogger \<times> connectState) \<times> effect list" where
  "connectStep head (this, Pending) UpstreamConnect =
     ((this, Established), [ClientWrite connectionEstablished, UpstreamWrite head])"
| "connectStep head (this, Established) (ClientData chunk) =
     ((this, Established), [UpstreamWrite chunk])"
| "connectStep head (this, Established) (UpstreamData chunk) =
     ((this, Established), [ClientWrite chunk])"
| "connectStep head (this, st) UpstreamError = ((this, Ended), [ClientEnd])"
| "connectStep head (this, Pending) ClientError = ((this, Pending), [UpstreamEnd])"
| "connectStep head (this, st) ClientError = ((this, Ended), [UpstreamEnd])"
| "connectStep head (this, st) ev = ((this, st), [])"

fun connectRun ::
  "buffer \<Rightarrow> BrowserTrafficLogger \<times> connectState \<Rightarrow> socketEvent list \<Rightarrow>
   (BrowserTrafficLogger \<times> connectState) \<times> effect list" where
  "connectRun head s [] = (s, [])"
| "connectRun head s (ev # evs) =
     (case connectStep head s ev of (s', out) \<Rightarrow>
        (case connectRun head s' evs of (s'', out') \<Rightarrow> (s'', out @ out')))"

text \<open>A CONNECT request from its arrival on: the handler, then the callbacks.\<close>

definition connectSession ::
  "string \<Rightarrow> BrowserTrafficLogger \<Rightarrow> IncomingMessage \<Rightarrow> buffer \<Rightarrow> socketEvent list \<Rightarrow>
   (BrowserTrafficLogger \<times> connectState) \<times> effect list" where
  "connectSession now this req head evs =
     (case handleHttpsConnect now this req of (this', out) \<Rightarrow>
        (case connectRun head (this', Pending) evs of (s, out') \<Rightarrow> (s, out @ out')))"

subsection \<open>Statistics\<close>

text \<open>
  A \<open>Map\<close> keeps its keys in the order of their first insertion, and \<open>set\<close> on a key
  that is present replaces the value where it stands: an association list with
  \<open>mapSet\<close>. \<open>Array.from(map.entries())\<close> is that list.
\<close>

fun mapSet :: "('k \<times> 'v) list \<Rightarrow> 'k \<Rightarrow> 'v \<Rightarrow> ('k \<times> 'v) list" where
  "mapSet [] k v = [(k, v)]"
| "mapSet ((k', v') # m) k v = (if k' = k then (k, v) # m else (k', v') # mapSet m k v)"

text \<open>
  \<open>Array.prototype.sort\<close> is a stable sort: \<open>a\<close> goes before \<open>b\<close> when the comparator is
  negative on \<open>(a, b)\<close>, and elements that compare equal keep their order. With a
  comparator that is an order on a key this fixes the result, which insertion from the
  right computes.
\<close>

fun insertBy :: "('a \<Rightarrow> 'a \<Rightarrow> int) \<Rightarrow> 'a \<Rightarrow> 'a list \<Rightarrow> 'a list" where
  "insertBy cmp x [] = [x]"
| "insertBy cmp x (y # ys) = (if cmp y x < 0 then y # insertBy cmp x ys else x # y # ys)"

definition sortBy :: "('a \<Rightarrow> 'a \<Rightarrow> int) \<Rightarrow> 'a list \<Rightarrow> 'a list" where
  "sortBy cmp xs = foldr (insertBy cmp) xs []"

record DomainCount =
  domain :: string
  count :: nat

record ProtocolStats =
  http :: nat
  https :: nat

record Stats =
  totalRequests :: nat
  uniqueDomainsSize :: nat
  topDomains :: "DomainCount list"
  protocolStats :: ProtocolStats

text \<open>The body of the \<open>forEach\<close> of \<open>getStats\<close>, on the three variables it updates.\<close>

definition countEntry ::
  "(string \<times> nat) list \<times> nat \<times> nat \<Rightarrow> LogEntry \<Rightarrow> (string \<times> nat) list \<times> nat \<times> nat" where
  "countEntry acc entry =
     (case acc of (domainCounts, httpCount, httpsCount) \<Rightarrow>
        (mapSet domainCounts (hostname entry)
           ((case map_of domainCounts (hostname entry) of None \<Rightarrow> 0 | Some c \<Rightarrow> c) + 1),
         (if protocol entry = HTTP then httpCount + 1 else httpCount),
         (if protocol entry = HTTP then httpsCount else httpsCount + 1)))"

definition getStats :: "BrowserTrafficLogger \<Rightarrow> Stats" where
  "getStats this =
     (case foldl countEntry ([], 0, 0) (logEntries this) of
        (domainCounts, httpCount, httpsCount) \<Rightarrow>
          \<lparr>totalRequests = length (logEntries this),
           uniqueDomainsSize = card (uniqueDomains this),
           topDomains =
             take 10
               (sortBy (\<lambda>a b. int (count b) - int (count a))
                  (map (\<lambda>(d, c). \<lparr>domain = d, count = c\<rparr>) domainCounts)),
           protocolStats = \<lparr>http = httpCount, https = httpsCount\<rparr>\<rparr>)"

section \<open>The blocking proxy\<close>







fun clientWrites :: "effect list \<Rightarrow> buffer list" where
  "clientWrites [] = []"
| "clientWrites (ClientWrite b # es) = b # clientWrites es"
| "clientWrites (e # es) = clientWrites es"




section \<open>Example inputs\<close>

text \<open>
  On bytes below 128, \<open>toString('utf8')\<close> yields the characters of those codes;
  \<open>asciiString\<close> is the decoder used on the example buffers, which hold such bytes
  where a name is read.
\<close>

definition asciiString :: "buffer \<Rightarrow> string" where
  "asciiString bs = map (\<lambda>b. char_of (unat b)) bs"

text \<open>
  The start of a ClientHello: the record header (5 bytes), the handshake type and
  length, the protocol version and 32 bytes of random (38 bytes), an empty session id,
  one cipher suite and one compression method. The two lengths of the headers are those
  of \<open>clientHello\<close> below; the parser does not read them.
\<close>

definition helloStart :: buffer where
  "helloStart =
     [0x16, 0x03, 0x01, 0x00, 0x43, 0x01, 0x00, 0x00, 0x3f, 0x03, 0x03] @ replicate 32 0 @
     [0x00, 0x00, 0x02, 0x13, 0x01, 0x01, 0x00]"

text \<open>
  A well-formed ClientHello of 72 bytes with one extension, the server name
  \<open>example.com\<close>: extensions length 20, extension type 0, extension length 16, list
  length 14, name type 0, name length 11, then the name.
\<close>

definition clientHello :: buffer where
  "clientHello =
     helloStart @
     [0x00, 0x14, 0x00, 0x00, 0x00, 0x10, 0x00, 0x0e, 0x00, 0x00, 0x0b] @
     ascii ''example.com''"

text \<open>
  The first 46 bytes of a ClientHello that declares 32 bytes of cipher suites: the
  buffer ends right after that length.
\<close>

definition truncatedHello :: buffer where
  "truncatedHello =
     [0x16, 0x03, 0x01, 0x00, 0x43, 0x01, 0x00, 0x00, 0x3f, 0x03, 0x03] @ replicate 32 0 @
     [0x00, 0x00, 0x20]"

text \<open>
  A buffer that ends with an empty extension of type 0: 56 bytes, the last four being
  the type and the length 0.
\<close>

definition emptyExtensionHello :: buffer where
  "emptyExtensionHello = helloStart @ [0x00, 0x04, 0x00, 0x00, 0x00, 0x00]"


section \<open>Notions used in the statements about the statistics\<close>

text \<open>
  The position at which a value is first seen in a list (the length of the list when
  it is not there), and the order that the top domains should be in: a larger count
  first, and for equal counts the host name that was logged first.
\<close>

definition firstSeen :: "'a list \<Rightarrow> 'a \<Rightarrow> nat" where
  "firstSeen xs x = length (takeWhile (\<lambda>y. y \<noteq> x) xs)"


definition bumpCount :: "(string \<times> nat) list \<Rightarrow> string \<Rightarrow> (string \<times> nat) list" where
  "bumpCount m d = mapSet m d ((case map_of m d of None \<Rightarrow> 0 | Some c \<Rightarrow> c) + 1)"

text \<open>
  The map of \<open>getStats\<close> after the loop, and what holds of it: its keys are the logged
  host names, each once and in the order in which they were first seen, and each value
  is the number of entries with that host name.
\<close>

definition domainCounts :: "BrowserTrafficLogger \<Rightarrow> (string \<times> nat) list" where
  "domainCounts this = foldl bumpCount [] (map hostname (logEntries this))"

definition countsInv :: "(string \<times> nat) list \<Rightarrow> string list \<Rightarrow> bool" where
  "countsInv m ds \<longleftrightarrow>
     distinct (map fst m) \<and> set (map fst m) = set ds \<and>
     (\<forall>d. map_of m d = (if d \<in> set ds then Some (count_list ds d) else None)) \<and>
     sorted_wrt (\<lambda>a b. firstSeen ds a < firstSeen ds b) (map fst m)"

abbreviation byCount :: "DomainCount \<Rightarrow> DomainCount \<Rightarrow> int" where
  "byCount \<equiv> (\<lambda>a b. int (count b) - int (count a))"

section \<open>Example requests\<close>

definition emptyLogger :: BrowserTrafficLogger where
  "emptyLogger = \<lparr>logEntries = [], uniqueDomains = {}\<rparr>"

text \<open>
  \<open>GET https://example.com/ HTTP/1.1\<close>, and what \<open>url.parse\<close> returns for its target:
  protocol \<open>https:\<close>, host name \<open>example.com\<close>, no port, path \<open>/\<close>.
\<close>

definition httpsRequest :: IncomingMessage where
  "httpsRequest =
     \<lparr>reqMethod = ''GET'', reqUrl = Some ''https://example.com/'',
      reqHeaders = [(''user-agent'', ''curl/8.0'')]\<rparr>"

definition urlParseExample :: "string \<Rightarrow> Url" where
  "urlParseExample u =
     (if u = ''https://example.com/''
      then \<lparr>url_protocol = Some ''https:'', url_hostname = Some ''example.com'',
            url_port = None, url_path = Some ''/''\<rparr>
      else \<lparr>url_protocol = None, url_hostname = None, url_port = None, url_path = None\<rparr>)"

text \<open>\<open>GET /index.html HTTP/1.1\<close> with no \<open>Host\<close> header.\<close>

definition hostlessRequest :: IncomingMessage where
  "hostlessRequest =
     \<lparr>reqMethod = ''GET'', reqUrl = Some ''/index.html'',
      reqHeaders = [(''accept'', ''*/*'')]\<rparr>"

text \<open>\<open>GET /index.html HTTP/1.1\<close> with the header \<open>Host: unknown\<close>.\<close>

definition unknownHostRequest :: IncomingMessage where
  "unknownHostRequest =
     \<lparr>reqMethod = ''GET'', reqUrl = Some ''/index.html'',
      reqHeaders = [(''host'', ''unknown'')]\<rparr>"

text \<open>\<open>CONNECT example.org:443 HTTP/1.1\<close>.\<close>

definition connectRequest :: IncomingMessage where
  "connectRequest =
     \<lparr>reqMethod = ''CONNECT'', reqUrl = Some ''example.org:443'',
      reqHeaders = [(''host'', ''example.org:443'')]\<rparr>"

definition badRequest :: "effect list" where
  "badRequest = [WriteHead 400, ResEnd ''Bad Request - Could not determine target hostname'']"

section \<open>The parser on the example buffers\<close>

lemma clientHello_sni:
  "extractSNI utf8 clientHello = Inr (Some (utf8 (ascii ''ample.com'')))"
  by (simp add: extractSNI_def clientHello_def helloStart_def byteAt_def readUInt16BE_def
      nth_append extLoop.simps slice_def ascii_def)

lemma asciiString_ample: "asciiString (ascii ''ample.com'') = ''ample.com''"
  by code_simp



text \<open>
  Claim C1: on a well-formed ClientHello whose server-name extension encodes
  \<open>example.com\<close> the parser should return exactly \<open>example.com\<close>. On \<open>clientHello\<close> the
  code reads the name length at offset 5 of the extension body, where the name starts,
  and slices from offset 7: it returns the decoding of \<open>ample.com\<close>, the name without
  its first two bytes.
\<close>

theorem extractSNI_clientHello:
  "extractSNI utf8 clientHello = Inr (Some (utf8 (ascii ''ample.com'')))
   \<and> extractSNI asciiString clientHello = Inr (Some ''ample.com'')
   \<and> extractSNI asciiString clientHello \<noteq> Inr (Some ''example.com'')"
  by (simp add: clientHello_sni asciiString_ample)

text \<open>
  Claim C2: on every buffer, truncated ones included, the parser should return no host
  name and never throw. \<open>truncatedHello\<close> ends after a cipher-suite length of 32: the
  code adds the length to \<open>i\<close>, reads the compression-methods length at \<open>data[78]\<close>
  without a bounds check, and the next \<open>readUInt16BE\<close> throws.
\<close>

theorem extractSNI_truncatedHello:
  "extractSNI utf8 truncatedHello = Inl RangeError"
  by (simp add: extractSNI_def truncatedHello_def byteAt_def readUInt16BE_def nth_append)

text \<open>
  The reads in the branch of the server name are unguarded in the same way: an
  extension of type 0 and length 0 at the end of the buffer passes the test
  \<open>i + extLen <= data.length\<close>, and the read at \<open>i + 2\<close> throws.
\<close>

lemma extractSNI_emptyExtensionHello:
  "extractSNI utf8 emptyExtensionHello = Inl RangeError"
  by (simp add: extractSNI_def emptyExtensionHello_def helloStart_def byteAt_def
      readUInt16BE_def nth_append extLoop.simps)

section \<open>The statistics\<close>

lemma fst_foldl_countEntry:
  "fst (foldl countEntry acc es) = foldl bumpCount (fst acc) (map hostname es)"
  by (induction es arbitrary: acc) (auto simp: countEntry_def bumpCount_def split: prod.splits)

lemma keys_mapSet:
  "map fst (mapSet m k v) = (if k \<in> set (map fst m) then map fst m else map fst m @ [k])"
  by (induction m) force+

lemma map_of_mapSet: "map_of (mapSet m k v) = (map_of m)(k \<mapsto> v)"
  by (induction m) (auto simp: fun_eq_iff)

lemma firstSeen_append_in: "x \<in> set xs \<Longrightarrow> firstSeen (xs @ ys) x = firstSeen xs x"
  by (simp add: firstSeen_def takeWhile_append1) 

lemma firstSeen_lt: "x \<in> set xs \<Longrightarrow> firstSeen xs x < length xs"
  unfolding firstSeen_def by (induction xs) auto

lemma firstSeen_append_new: "x \<notin> set xs \<Longrightarrow> firstSeen (xs @ [x]) x = length xs"
  unfolding firstSeen_def by (induction xs) auto


lemma sorted_wrt_firstSeen_append:
  assumes "sorted_wrt (\<lambda>a b. firstSeen ds a < firstSeen ds b) ks" and "set ks \<subseteq> set ds"
  shows "sorted_wrt (\<lambda>a b. firstSeen (ds @ es) a < firstSeen (ds @ es) b) ks"
proof -
  have "firstSeen (ds @ es) a < firstSeen (ds @ es) b"
    if "a \<in> set ks" "b \<in> set ks" "firstSeen ds a < firstSeen ds b" for a b
  proof -
    from that assms(2) have "a \<in> set ds" "b \<in> set ds" by blast+
    with that(3) show ?thesis by (simp add: firstSeen_append_in)
  qed
  with assms(1) show ?thesis
    by (rule sorted_wrt_mono_rel [rotated])
qed

lemma countsInv_step:
  assumes inv: "countsInv m ds"
  shows "countsInv (bumpCount m d) (ds @ [d])"
proof -
  from inv have dist: "distinct (map fst m)" and keys: "set (map fst m) = set ds"
    and vals: "\<And>x. map_of m x = (if x \<in> set ds then Some (count_list ds x) else None)"
    and ord: "sorted_wrt (\<lambda>a b. firstSeen ds a < firstSeen ds b) (map fst m)"
    by (auto simp: countsInv_def)
  let ?m' = "bumpCount m d"
  have k': "map fst ?m' = (if d \<in> set ds then map fst m else map fst m @ [d])"
    using keys by (simp add: bumpCount_def keys_mapSet)
  have 1: "distinct (map fst ?m')"
    using dist keys by (simp add: k')
  have 2: "set (map fst ?m') = set (ds @ [d])"
    using keys by (auto simp: k')
  have 3: "map_of ?m' x = (if x \<in> set (ds @ [d]) then Some (count_list (ds @ [d]) x) else None)" for x
    by (simp add: bumpCount_def map_of_mapSet vals)
  have ord': "sorted_wrt (\<lambda>a b. firstSeen (ds @ [d]) a < firstSeen (ds @ [d]) b) (map fst m)"
    using ord keys by (intro sorted_wrt_firstSeen_append) auto
  have 4: "sorted_wrt (\<lambda>a b. firstSeen (ds @ [d]) a < firstSeen (ds @ [d]) b) (map fst ?m')"
  proof (cases "d \<in> set ds")
    case True
    then show ?thesis using ord' by (simp add: k')
  next
    case False
    have "firstSeen (ds @ [d]) a < firstSeen (ds @ [d]) d" if "a \<in> set (map fst m)" for a
      using that keys False by (simp add: firstSeen_append_in firstSeen_append_new firstSeen_lt)
    then show ?thesis
      using ord' False by (simp add: k' sorted_wrt_append)
  qed
  show ?thesis
    unfolding countsInv_def using 1 2 3 4 by blast
qed

lemma countsInv_foldl: "countsInv (foldl bumpCount [] ds) ds"
proof (induction ds rule: rev_induct)
  case Nil
  show ?case by (simp add: countsInv_def)
next
  case (snoc d ds)
  then show ?case by (simp add: countsInv_step)
qed


lemma length_insertBy: "length (insertBy cmp x ys) = Suc (length ys)"
  by (induction ys) auto


lemma length_sortBy: "length (sortBy cmp xs) = length xs"
  by (induction xs) (auto simp: sortBy_def length_insertBy)





lemma topDomains_getStats:
  "topDomains (getStats this) =
     take 10 (sortBy byCount (map (\<lambda>(d, c). \<lparr>domain = d, count = c\<rparr>) (domainCounts this)))"
proof -
  obtain m h s where f: "foldl countEntry ([], 0, 0) (logEntries this) = (m, h, s)"
    by (cases "foldl countEntry ([], 0, 0) (logEntries this)") auto
  have "m = domainCounts this"
    using fst_foldl_countEntry [of "([], 0, 0)" "logEntries this"] f by (simp add: domainCounts_def)
  then show ?thesis by (simp add: getStats_def f)
qed


text \<open>
  Claim C9: the list of top domains has as many entries as there are distinct logged
  host names, and ten when there are more.
\<close>

theorem topDomains_length:
  "length (topDomains (getStats this)) = min 10 (card (set (map hostname (logEntries this))))"
proof -
  have inv: "countsInv (domainCounts this) (map hostname (logEntries this))"
    unfolding domainCounts_def by (rule countsInv_foldl)
  then have "card (set (map hostname (logEntries this))) = length (domainCounts this)"
    using distinct_card [of "map fst (domainCounts this)"] by (simp add: countsInv_def)
  then show ?thesis
    by (simp add: topDomains_getStats length_sortBy min.commute)
qed

section \<open>Plain requests\<close>

lemma parseInt_80: "parseInt ''80'' = Some 80"
  by (simp add: parseInt_def isStrWhiteSpaceChar_def isRadixDigit_def digitValue_def)

text \<open>
  With an absolute target and no port in it, \<open>reqUrl.port || "80"\<close> is \<open>"80"\<close> and
  \<open>parseInt\<close> of it is 80: the alternative on the protocol is never reached.
\<close>

lemma absolute_url_default_port:
  assumes "startsWith (reqUrl req) ''http://'' \<or> startsWith (reqUrl req) ''https://''"
    and "stringOr (url_port (urlParse (case reqUrl req of None \<Rightarrow> [] | Some u \<Rightarrow> u))) [] = []"
  shows "snd (snd (resolveDestination urlParse req)) = 80"
proof -
  from assms(2) have "stringOr (url_port (urlParse (case reqUrl req of None \<Rightarrow> [] | Some u \<Rightarrow> u))) ''80'' = ''80''"
    by (auto simp: stringOr_def split: option.splits if_splits)
  with assms(1) show ?thesis
    by (simp add: resolveDestination_def Let_def parseInt_80 numberOr_def)
qed

text \<open>
  Claim C5: for an absolute target with no explicit port the outbound port should be
  80 for \<open>http\<close> and 443 for \<open>https\<close>. For \<open>GET https://example.com/\<close> the code
  resolves port 80.
\<close>

theorem https_default_port:
  "resolveDestination urlParseExample httpsRequest = (''example.com'', ''/'', 80)"
  by (simp add: resolveDestination_def urlParseExample_def httpsRequest_def startsWith_def
      stringOr_def numberOr_def parseInt_def isStrWhiteSpaceChar_def isRadixDigit_def digitValue_def)

text \<open>
  A request whose target has no scheme and that has no \<open>Host\<close> header has no host
  name: the pattern of the third strategy needs the scheme.
\<close>

lemma no_scheme_no_host_unresolved:
  assumes "\<not> startsWith (reqUrl req) ''http://''" and "\<not> startsWith (reqUrl req) ''https://''"
    and "stringOr (map_of (reqHeaders req) ''host'') [] = []"
  shows "fst (resolveDestination urlParse req) = []"
proof (cases "reqUrl req")
  case None
  with assms show ?thesis by (simp add: resolveDestination_def)
next
  case (Some u)
  have n: "length ''http://'' = 7" "length ''https://'' = 8"
    by simp_all
  from assms(1) Some have a: "take 7 u \<noteq> ''http://''"
    unfolding startsWith_def n by simp
  from assms(2) Some have b: "take 8 u \<noteq> ''https://''"
    unfolding startsWith_def n by simp
  have "urlMatch u = None"
    by (simp only: urlMatch_def a b if_False Let_def option.case)
  with assms Some show ?thesis by (simp add: resolveDestination_def)
qed

text \<open>
  Claim C7: when no host name can be determined, the proxy answers 400 with a
  diagnostic body, makes no outbound request and logs nothing: the logger is unchanged
  and the two calls on the response are the only effects.
\<close>

theorem unresolved_request_rejected:
  assumes "fst (resolveDestination urlParse req) = []"
  shows "handleHttpRequest urlParse now this req = (this, badRequest)"
  using assms by (cases "resolveDestination urlParse req") (simp add: handleHttpRequest_def badRequest_def)

theorem unresolved_request_rejected_witness:
  "fst (resolveDestination urlParseExample hostlessRequest) = []
   \<and> handleHttpRequest urlParseExample ''2026-01-01T00:00:00.000Z'' emptyLogger hostlessRequest
       = (emptyLogger, badRequest)"
proof -
  have h: "fst (resolveDestination urlParseExample hostlessRequest) = []"
    by (simp add: resolveDestination_def hostlessRequest_def startsWith_def stringOr_def urlMatch_def)
  show ?thesis
    using h unresolved_request_rejected [OF h, of "''2026-01-01T00:00:00.000Z''" emptyLogger] by simp
qed

text \<open>
  Claim C10: a request resolved to the host name \<open>unknown\<close> is answered like an
  unresolved one: 400, no outbound request, nothing logged.
\<close>

theorem unknown_host_rejected:
  assumes "fst (resolveDestination urlParse req) = ''unknown''"
  shows "handleHttpRequest urlParse now this req = (this, badRequest)"
  using assms by (cases "resolveDestination urlParse req") (simp add: handleHttpRequest_def badRequest_def)

theorem unknown_host_rejected_witness:
  "fst (resolveDestination urlParseExample unknownHostRequest) = ''unknown''
   \<and> handleHttpRequest urlParseExample ''2026-01-01T00:00:00.000Z'' emptyLogger unknownHostRequest
       = (emptyLogger, badRequest)"
proof -
  have h: "fst (resolveDestination urlParseExample unknownHostRequest) = ''unknown''"
    by (simp add: resolveDestination_def unknownHostRequest_def startsWith_def stringOr_def
        split_def hostPartOf_def portPartOf_def)
  show ?thesis
    using h unknown_host_rejected [OF h, of "''2026-01-01T00:00:00.000Z''" emptyLogger] by simp
qed

section \<open>CONNECT requests\<close>

lemma connectStep_logger: "fst (fst (connectStep head (this, st) ev)) = this"
  by (cases st; cases ev) simp_all

lemma connectRun_logger: "fst (fst (connectRun head (this, st) evs)) = this"
proof (induction evs arbitrary: st)
  case Nil
  show ?case by simp
next
  case (Cons ev evs)
  obtain this' st' out where s: "connectStep head (this, st) ev = ((this', st'), out)"
    by (metis prod.exhaust)
  with connectStep_logger [of head this st ev] have "this' = this" by simp
  with s Cons.IH [of st'] show ?case
    by (cases "connectRun head (this, st') evs") simp
qed

text \<open>
  Claim C6, as the code has it: a CONNECT request appends exactly one entry, with the
  method \<open>CONNECT\<close>, and it does so in the handler, before the upstream connection is
  attempted. Whatever follows on the connection (the connect succeeding or failing,
  chunks in either direction, errors) leaves the log as the handler left it.
\<close>

theorem connect_logged_once:
  "logEntries (fst (handleHttpsConnect now this req)) =
     logEntries this @
     [\<lparr>timestamp = now, httpMethod = ''CONNECT'',
       hostname = fst (parseConnectUrl (case reqUrl req of None \<Rightarrow> [] | Some u \<Rightarrow> u)),
       path = ''/'', protocol = HTTPS, userAgent = map_of (reqHeaders req) ''user-agent''\<rparr>]
   \<and> fst (fst (connectSession now this req head evs)) = fst (handleHttpsConnect now this req)"
proof -
  obtain host port where p: "parseConnectUrl (case reqUrl req of None \<Rightarrow> [] | Some u \<Rightarrow> u) = (host, port)"
    by (metis prod.exhaust)
  obtain this' out where h: "handleHttpsConnect now this req = (this', out)"
    by (metis prod.exhaust)
  then have l: "logEntries this' = logEntries this @
     [\<lparr>timestamp = now, httpMethod = ''CONNECT'', hostname = host,
       path = ''/'', protocol = HTTPS, userAgent = map_of (reqHeaders req) ''user-agent''\<rparr>]"
    by (auto simp: handleHttpsConnect_def p logRequest_def)
  have "fst (fst (connectSession now this req head evs)) = this'"
    using connectRun_logger [of head this' Pending evs]
    by (cases "connectRun head (this', Pending) evs") (simp add: connectSession_def h)
  with l p h show ?thesis by simp
qed

text \<open>
  Claim C6, as stated, says that no entry is logged for a failed upstream connect. For
  \<open>CONNECT example.org:443\<close> whose upstream connection fails, the entry is in the log,
  the client is ended and no tunnel was established.
\<close>

theorem connect_logged_on_failure:
  "snd (fst (connectSession ''2026-01-01T00:00:00.000Z'' emptyLogger connectRequest [] [UpstreamError])) = Ended
   \<and> map httpMethod (logEntries (fst (fst (connectSession ''2026-01-01T00:00:00.000Z'' emptyLogger connectRequest [] [UpstreamError])))) = [''CONNECT'']
   \<and> snd (connectSession ''2026-01-01T00:00:00.000Z'' emptyLogger connectRequest [] [UpstreamError]) =
       [AppendFile ''browser_traffic.log''
          (''2026-01-01T00:00:00.000Z | HTTPS | CONNECT | example.org/ | Unknown'' @ [CHR 0x0A]),
        NetConnect 443 ''example.org'', ClientEnd]"
  by (simp add: connectSession_def handleHttpsConnect_def connectRequest_def emptyLogger_def
      parseConnectUrl_def split_def hostPartOf_def portPartOf_def stringOr_def logRequest_def
      writeToLogFile_def protocolName_def numberOr_def parseInt_def isStrWhiteSpaceChar_def
      isRadixDigit_def digitValue_def)

section \<open>The blocking proxy\<close>






lemma clientWrites_append:
  "clientWrites (xs @ ys) = clientWrites xs @ clientWrites ys"
  by (induction xs rule: clientWrites.induct) simp_all











end
